theory Spec2Isabelle
  imports Main
begin

section \<open>The command line of prometheus-hetzner-sd\<close>

text \<open>
  A shallow embedding of \<^verbatim>\<open>cmd/prometheus-hetzner-sd/main.go\<close>: the flag table of
  the \<^verbatim>\<open>server\<close> command, the command's action (lines 114 to 174) and the tail of
  \<^verbatim>\<open>main\<close> (lines 191 to 193).

  The action works on a shared configuration through a pointer, logs, and calls three
  functions that live outside this file (\<^verbatim>\<open>setupLogger\<close>, \<^verbatim>\<open>readConfig\<close> and
  \<^verbatim>\<open>action.Server\<close>). The model passes the configuration explicitly, records every
  effect in a list of events, and takes the three functions as parameters.
\<close>

subsection \<open>Errors (lines 15 to 27)\<close>

text \<open>
  A Go \<^verbatim>\<open>error\<close> built by \<^verbatim>\<open>errors.New\<close> carries its message; a function
  returning \<^verbatim>\<open>error\<close> returns \<^verbatim>\<open>nil\<close> (\<open>None\<close>) or an error (\<open>Some\<close>).
\<close>

datatype error = errors_New string

fun Error :: "error \<Rightarrow> string" where
  "Error (errors_New s) = s"

definition ErrMissingOutputFile :: error where
  "ErrMissingOutputFile = errors_New ''Missing path for output.file''"

definition ErrMissingHetznerUsername :: error where
  "ErrMissingHetznerUsername = errors_New ''Missing required hetzner.username''"

definition ErrMissingHetznerPassword :: error where
  "ErrMissingHetznerPassword = errors_New ''Missing required hetzner.password''"

definition ErrMissingAnyCredentials :: error where
  "ErrMissingAnyCredentials = errors_New ''Missing any credentials''"

subsection \<open>The configuration\<close>

text \<open>
  The fields of \<^verbatim>\<open>config.Config\<close> and \<^verbatim>\<open>config.Credential\<close> that
  \<^verbatim>\<open>main.go\<close> reads and writes: \<^verbatim>\<open>cfg.Logs.Level\<close>, \<^verbatim>\<open>cfg.Logs.Pretty\<close>,
  \<^verbatim>\<open>cfg.Server.Addr\<close>, \<^verbatim>\<open>cfg.Server.Path\<close>, \<^verbatim>\<open>cfg.Target.File\<close>,
  \<^verbatim>\<open>cfg.Target.Refresh\<close> and \<^verbatim>\<open>cfg.Target.Credentials\<close>.
\<close>

record Credential =
  Project :: string
  Username :: string
  Password :: string

record Logs_t =
  Level :: string
  Pretty :: bool

record Server_t =
  Addr :: string
  Path :: string

record Target_t =
  File :: string
  Refresh :: int
  Credentials :: "Credential list"

record Config =
  Logs :: Logs_t
  Server :: Server_t
  Target :: Target_t

subsection \<open>The flag table (lines 46 to 113)\<close>

datatype flag_value = StringValue string | IntValue int | BoolValue bool

datatype destination =
  cfg_Logs_Level | cfg_Logs_Pretty | cfg_Server_Addr | cfg_Server_Path
  | cfg_Target_File | cfg_Target_Refresh

record Flag =
  Name :: string
  Value :: flag_value
  Usage :: string
  EnvVars :: "string list"
  Destination :: "destination option"

definition appFlags :: "Flag list" where
  "appFlags =
    [\<lparr>Name = ''log.level'', Value = StringValue ''info'',
      Usage = ''Only log messages with given severity'',
      EnvVars = [''PROMETHEUS_HETZNER_LOG_LEVEL''],
      Destination = Some cfg_Logs_Level\<rparr>,
     \<lparr>Name = ''log.pretty'', Value = BoolValue False,
      Usage = ''Enable pretty messages for logging'',
      EnvVars = [''PROMETHEUS_HETZNER_LOG_PRETTY''],
      Destination = Some cfg_Logs_Pretty\<rparr>]"

definition serverFlags :: "Flag list" where
  "serverFlags =
    [\<lparr>Name = ''web.address'', Value = StringValue ''0.0.0.0:9000'',
      Usage = ''Address to bind the metrics server'',
      EnvVars = [''PROMETHEUS_HETZNER_WEB_ADDRESS''],
      Destination = Some cfg_Server_Addr\<rparr>,
     \<lparr>Name = ''web.path'', Value = StringValue ''/metrics'',
      Usage = ''Path to bind the metrics server'',
      EnvVars = [''PROMETHEUS_HETZNER_WEB_PATH''],
      Destination = Some cfg_Server_Path\<rparr>,
     \<lparr>Name = ''output.file'', Value = StringValue ''/etc/prometheus/hetzner.json'',
      Usage = ''Path to write the file_sd config'',
      EnvVars = [''PROMETHEUS_HETZNER_OUTPUT_FILE''],
      Destination = Some cfg_Target_File\<rparr>,
     \<lparr>Name = ''output.refresh'', Value = IntValue 30,
      Usage = ''Discovery refresh interval in seconds'',
      EnvVars = [''PROMETHEUS_HETZNER_OUTPUT_REFRESH''],
      Destination = Some cfg_Target_Refresh\<rparr>,
     \<lparr>Name = ''hetzner.username'', Value = StringValue '''',
      Usage = ''Username for the Hetzner API'',
      EnvVars = [''PROMETHEUS_HETZNER_USERNAME''],
      Destination = None\<rparr>,
     \<lparr>Name = ''hetzner.password'', Value = StringValue '''',
      Usage = ''Password for the Hetzner API'',
      EnvVars = [''PROMETHEUS_HETZNER_PASSWORD''],
      Destination = None\<rparr>,
     \<lparr>Name = ''hetzner.config'', Value = StringValue '''',
      Usage = ''Path to Hetzner configuration file'',
      EnvVars = [''PROMETHEUS_HETZNER_CONFIG''],
      Destination = None\<rparr>]"

text \<open>
  The flag of a given name, as the command looks its flags up; \<open>Value\<close> is what the
  flag holds when neither the command line nor one of its \<open>EnvVars\<close> gives it.
\<close>

fun lookupFlag :: "Flag list \<Rightarrow> string \<Rightarrow> Flag option" where
  "lookupFlag [] n = None"
| "lookupFlag (f # fs) n = (if Name f = n then Some f else lookupFlag fs n)"

text \<open>The environment variables of a flag that carry the prefix of this program.\<close>

definition hetznerEnvVars :: "Flag \<Rightarrow> string list" where
  "hetznerEnvVars f = filter (\<lambda>e. take 19 e = ''PROMETHEUS_HETZNER_'') (EnvVars f)"

subsection \<open>The context of a run, the outside functions, the events\<close>

text \<open>
  \<^verbatim>\<open>c.IsSet(name)\<close> and \<^verbatim>\<open>c.String(name)\<close> of the \<^verbatim>\<open>cli.Context\<close>.
\<close>

record Context =
  IsSet :: "string \<Rightarrow> bool"
  String :: "string \<Rightarrow> string"

text \<open>
  The functions called by the action and defined elsewhere. \<^verbatim>\<open>readConfig\<close> gets the
  configuration by pointer, so it returns the configuration it leaves behind together
  with its error. \<open>'l\<close> is the type of loggers.
\<close>

record 'l Outside =
  setupLogger :: "Config \<Rightarrow> 'l"
  readConfig :: "string \<Rightarrow> Config \<Rightarrow> error option \<times> Config"
  action_Server :: "Config \<Rightarrow> 'l \<Rightarrow> error option"

text \<open>
  What a run does besides returning: the calls of the outside functions and the
  lines logged at level error (as key and value pairs; an error is logged by its message).
\<close>

datatype event =
  SetupLogger
  | ReadConfig string
  | LogError "(string \<times> string) list"
  | CallServer Config

text \<open>What a run of the action leaves: the error returned, the configuration, the events.\<close>

record Outcome =
  returned :: "error option"
  config :: Config
  events :: "event list"

fun isCallServer :: "event \<Rightarrow> bool" where
  "isCallServer (CallServer _) = True"
| "isCallServer _ = False"

fun isReadConfig :: "event \<Rightarrow> bool" where
  "isReadConfig (ReadConfig _) = True"
| "isReadConfig _ = False"

definition serverCalls :: "event list \<Rightarrow> nat" where
  "serverCalls es = length (filter isCallServer es)"

definition readConfigCalls :: "event list \<Rightarrow> nat" where
  "readConfigCalls es = length (filter isReadConfig es)"

subsection \<open>The action of the server command (lines 114 to 174)\<close>

text \<open>
  The action is a sequence of four guarded blocks and the final call. Each block is a
  function from the state before it to either the outcome of the run, when the block
  returns (\<open>Inl\<close>), or the state after it (\<open>Inr\<close>).
\<close>

text \<open>Lines 115 to 126: the logger, and the configuration file when the flag is set.\<close>

definition readConfigBlock :: "'l Outside \<Rightarrow> Context \<Rightarrow> Config \<Rightarrow> Outcome + Config \<times> event list" where
  "readConfigBlock out c cfg =
    (if IsSet c ''hetzner.config'' then
       (case readConfig out (String c ''hetzner.config'') cfg of
          (Some err, cfg') \<Rightarrow>
            Inl \<lparr>returned = Some err, config = cfg',
                 events = [SetupLogger, ReadConfig (String c ''hetzner.config''),
                           LogError [(''msg'', ''Failed to read config''), (''err'', Error err)]]\<rparr>
        | (None, cfg') \<Rightarrow>
            Inr (cfg', [SetupLogger, ReadConfig (String c ''hetzner.config'')]))
     else Inr (cfg, [SetupLogger]))"

text \<open>Lines 128 to 134: the output file.\<close>

definition outputFileBlock :: "Config \<Rightarrow> event list \<Rightarrow> Outcome + Config \<times> event list" where
  "outputFileBlock cfg es =
    (if File (Target cfg) = '''' then
       Inl \<lparr>returned = Some ErrMissingOutputFile, config = cfg,
            events = es @ [LogError [(''msg'', Error ErrMissingOutputFile)]]\<rparr>
     else Inr (cfg, es))"

text \<open>Lines 136 to 163: the credential of the two flags.\<close>

definition flagBlock :: "Context \<Rightarrow> Config \<Rightarrow> event list \<Rightarrow> Outcome + Config \<times> event list" where
  "flagBlock c cfg es =
    (if IsSet c ''hetzner.username'' \<and> IsSet c ''hetzner.password'' then
       (let credentials = \<lparr>Project = ''default'',
                           Username = String c ''hetzner.username'',
                           Password = String c ''hetzner.password''\<rparr>;
            cfg' = cfg\<lparr>Target := (Target cfg)\<lparr>Credentials :=
                      Credentials (Target cfg) @ [credentials]\<rparr>\<rparr>
        in if Username credentials = '''' then
             Inl \<lparr>returned = Some ErrMissingHetznerUsername, config = cfg',
                  events = es @ [LogError [(''msg'', Error ErrMissingHetznerUsername)]]\<rparr>
           else if Password credentials = '''' then
             Inl \<lparr>returned = Some ErrMissingHetznerPassword, config = cfg',
                  events = es @ [LogError [(''msg'', Error ErrMissingHetznerPassword)]]\<rparr>
           else Inr (cfg', es))
     else Inr (cfg, es))"

text \<open>Lines 165 to 171: at least one credential.\<close>

definition anyCredentialsBlock :: "Config \<Rightarrow> event list \<Rightarrow> Outcome + Config \<times> event list" where
  "anyCredentialsBlock cfg es =
    (if length (Credentials (Target cfg)) = 0 then
       Inl \<lparr>returned = Some ErrMissingAnyCredentials, config = cfg,
            events = es @ [LogError [(''msg'', Error ErrMissingAnyCredentials)]]\<rparr>
     else Inr (cfg, es))"

text \<open>Line 173: the call of \<^verbatim>\<open>action.Server\<close>, whose result the action returns.\<close>

definition serverCall :: "'l Outside \<Rightarrow> 'l \<Rightarrow> Config \<Rightarrow> event list \<Rightarrow> Outcome" where
  "serverCall out logger cfg es =
    \<lparr>returned = action_Server out cfg logger, config = cfg,
     events = es @ [CallServer cfg]\<rparr>"

text \<open>
  The state in which a run arrives at line 128, after the configuration file has been
  merged or when none was asked for; \<open>None\<close> when reading it has failed and
  the run has returned.
\<close>

definition afterConfigMerge :: "'l Outside \<Rightarrow> Context \<Rightarrow> Config \<Rightarrow> (Config \<times> event list) option" where
  "afterConfigMerge out c cfg =
    (case readConfigBlock out c cfg of Inl r \<Rightarrow> None | Inr s \<Rightarrow> Some s)"

text \<open>
  The configuration that the block of lines 136 to 163 leaves behind, whether the block
  returns or the run goes on to line 165.
\<close>

definition flagHandling :: "Context \<Rightarrow> Config \<Rightarrow> Config" where
  "flagHandling c cfg =
    (case flagBlock c cfg [] of Inl r \<Rightarrow> config r | Inr (cfg', es) \<Rightarrow> cfg')"

text \<open>The action: the blocks in the order of the source, the first return ends the run.\<close>

definition Action :: "'l Outside \<Rightarrow> Context \<Rightarrow> Config \<Rightarrow> Outcome" where
  "Action out c cfg =
    (let logger = setupLogger out cfg in
     case readConfigBlock out c cfg of
       Inl r \<Rightarrow> r
     | Inr (cfg1, es1) \<Rightarrow>
        (case outputFileBlock cfg1 es1 of
           Inl r \<Rightarrow> r
         | Inr (cfg2, es2) \<Rightarrow>
            (case flagBlock c cfg2 es2 of
               Inl r \<Rightarrow> r
             | Inr (cfg3, es3) \<Rightarrow>
                (case anyCredentialsBlock cfg3 es3 of
                   Inl r \<Rightarrow> r
                 | Inr (cfg4, es4) \<Rightarrow> serverCall out logger cfg4 es4))))"

subsection \<open>The end of main (lines 191 to 193)\<close>

datatype process_end = os_Exit int | Returns

text \<open>\<^verbatim>\<open>app.Run\<close> belongs to the command-line library and is a parameter.\<close>

definition main :: "(string list \<Rightarrow> error option) \<Rightarrow> string list \<Rightarrow> process_end" where
  "main app_Run os_Args =
    (case app_Run os_Args of Some err \<Rightarrow> os_Exit 1 | None \<Rightarrow> Returns)"

subsection \<open>Sample runs\<close>

text \<open>
  Concrete inputs on which the theorems below are instantiated: the configuration that
  the defaults of the flag table give, a context built from the flags that are set,
  and outside functions that read one configuration file with one credential.
\<close>

definition sampleConfig :: Config where
  "sampleConfig =
    \<lparr>Logs = \<lparr>Level = ''info'', Pretty = False\<rparr>,
     Server = \<lparr>Addr = ''0.0.0.0:9000'', Path = ''/metrics''\<rparr>,
     Target = \<lparr>File = ''/etc/prometheus/hetzner.json'', Refresh = 30, Credentials = []\<rparr>\<rparr>"

definition emptyFileConfig :: Config where
  "emptyFileConfig =
    \<lparr>Logs = \<lparr>Level = ''info'', Pretty = False\<rparr>,
     Server = \<lparr>Addr = ''0.0.0.0:9000'', Path = ''/metrics''\<rparr>,
     Target = \<lparr>File = '''', Refresh = 30, Credentials = []\<rparr>\<rparr>"

definition contextOf :: "(string \<times> string) list \<Rightarrow> Context" where
  "contextOf kv =
    \<lparr>IsSet = (\<lambda>n. map_of kv n \<noteq> None),
     String = (\<lambda>n. case map_of kv n of Some v \<Rightarrow> v | None \<Rightarrow> '''')\<rparr>"

definition fileCredential :: Credential where
  "fileCredential = \<lparr>Project = ''shop'', Username = ''robot'', Password = ''secret''\<rparr>"

definition sampleOutside :: "unit Outside" where
  "sampleOutside =
    \<lparr>setupLogger = (\<lambda>cfg. ()),
     readConfig = (\<lambda>path cfg.
       if path = ''/etc/hetzner.yml''
       then (None, cfg\<lparr>Target := (Target cfg)\<lparr>Credentials :=
                     Credentials (Target cfg) @ [fileCredential]\<rparr>\<rparr>)
       else (Some (errors_New ''no such file''), cfg)),
     action_Server = (\<lambda>cfg logger. Some (errors_New ''server stopped''))\<rparr>"

text \<open>
  A stand-in for \<^verbatim>\<open>app.Run\<close>: the \<^verbatim>\<open>server\<close> command without any credential runs
  the action and hands its error back, any other command line succeeds.
\<close>

definition sampleRun :: "string list \<Rightarrow> error option" where
  "sampleRun os_Args =
    (if os_Args = [''prometheus-hetzner-sd'', ''server'']
     then returned (Action sampleOutside (contextOf []) sampleConfig)
     else None)"

section \<open>Properties of the action\<close>

subsection \<open>Auxiliary facts\<close>

lemma afterConfigMerge_Some:
  "afterConfigMerge out c cfg = Some (cfg1, es1) \<longleftrightarrow> readConfigBlock out c cfg = Inr (cfg1, es1)"
  by (auto simp: afterConfigMerge_def split: sum.splits)

lemma readConfigBlock_no_server:
  "readConfigBlock out c cfg = Inr (cfg1, es1) \<Longrightarrow> serverCalls es1 = 0"
  by (auto simp: readConfigBlock_def serverCalls_def split: if_splits prod.splits option.splits)

lemma serverCalls_append: "serverCalls (xs @ ys) = serverCalls xs + serverCalls ys"
  by (simp add: serverCalls_def)

lemma flagBlock_both_set:
  assumes "IsSet c ''hetzner.username''" and "IsSet c ''hetzner.password''"
  shows "flagBlock c cfg es =
    (let credentials = \<lparr>Project = ''default'',
                        Username = String c ''hetzner.username'',
                        Password = String c ''hetzner.password''\<rparr>;
         cfg' = cfg\<lparr>Target := (Target cfg)\<lparr>Credentials :=
                   Credentials (Target cfg) @ [credentials]\<rparr>\<rparr>
     in if String c ''hetzner.username'' = '''' then
          Inl \<lparr>returned = Some ErrMissingHetznerUsername, config = cfg',
               events = es @ [LogError [(''msg'', Error ErrMissingHetznerUsername)]]\<rparr>
        else if String c ''hetzner.password'' = '''' then
          Inl \<lparr>returned = Some ErrMissingHetznerPassword, config = cfg',
               events = es @ [LogError [(''msg'', Error ErrMissingHetznerPassword)]]\<rparr>
        else Inr (cfg', es))"
  using assms by (simp add: flagBlock_def Let_def)

lemma flagBlock_not_both:
  assumes "\<not> (IsSet c ''hetzner.username'' \<and> IsSet c ''hetzner.password'')"
  shows "flagBlock c cfg es = Inr (cfg, es)"
  using assms by (auto simp: flagBlock_def)

text \<open>
  A run that arrives at line 136 (the configuration file merged or not asked for, the
  output file not empty) is decided by the last three blocks.
\<close>

lemma Action_from_line_136:
  assumes "afterConfigMerge out c cfg = Some (cfg1, es1)"
    and "File (Target cfg1) \<noteq> ''''"
  shows "Action out c cfg =
    (case flagBlock c cfg1 es1 of
       Inl r \<Rightarrow> r
     | Inr (cfg3, es3) \<Rightarrow>
        (case anyCredentialsBlock cfg3 es3 of
           Inl r \<Rightarrow> r
         | Inr (cfg4, es4) \<Rightarrow> serverCall out (setupLogger out cfg) cfg4 es4))"
  using assms
  by (simp add: afterConfigMerge_Some Action_def outputFileBlock_def)

subsection \<open>The output file\<close>

text \<open>
  C4: when a run has merged the configuration file (or none was asked for) and
  \<^verbatim>\<open>cfg.Target.File\<close> is then the empty string, the action returns
  \<^verbatim>\<open>ErrMissingOutputFile\<close>, whose message is "Missing path for output.file". It does
  so before any credential handling: the configuration is the one the merge left, the
  only further event is the logged error, and \<^verbatim>\<open>action.Server\<close> is not called.
\<close>

theorem output_file_missing:
  assumes "afterConfigMerge out c cfg = Some (cfg1, es1)"
    and "File (Target cfg1) = ''''"
  shows "returned (Action out c cfg) = Some ErrMissingOutputFile
    \<and> Error ErrMissingOutputFile = ''Missing path for output.file''
    \<and> config (Action out c cfg) = cfg1
    \<and> events (Action out c cfg) = es1 @ [LogError [(''msg'', ''Missing path for output.file'')]]
    \<and> serverCalls (events (Action out c cfg)) = 0"
proof -
  from assms(1) have r: "readConfigBlock out c cfg = Inr (cfg1, es1)"
    by (simp add: afterConfigMerge_Some)
  have a: "Action out c cfg =
      \<lparr>returned = Some ErrMissingOutputFile, config = cfg1,
       events = es1 @ [LogError [(''msg'', Error ErrMissingOutputFile)]]\<rparr>"
    using r assms(2) by (simp add: Action_def outputFileBlock_def)
  have n: "serverCalls es1 = 0"
    using r by (rule readConfigBlock_no_server)
  show ?thesis
    using n by (simp add: a serverCalls_append) (simp add: ErrMissingOutputFile_def serverCalls_def)
qed

theorem output_file_missing_witness:
  "afterConfigMerge sampleOutside (contextOf []) emptyFileConfig
     = Some (emptyFileConfig, [SetupLogger])
   \<and> File (Target emptyFileConfig) = ''''
   \<and> returned (Action sampleOutside (contextOf []) emptyFileConfig) = Some ErrMissingOutputFile
   \<and> serverCalls (events (Action sampleOutside (contextOf []) emptyFileConfig)) = 0"
proof -
  have h1: "afterConfigMerge sampleOutside (contextOf []) emptyFileConfig
      = Some (emptyFileConfig, [SetupLogger])"
    by (simp add: afterConfigMerge_def readConfigBlock_def contextOf_def)
  have h2: "File (Target emptyFileConfig) = ''''"
    by (simp add: emptyFileConfig_def)
  show ?thesis
    using output_file_missing [OF h1 h2] h1 h2 by blast
qed

subsection \<open>The configuration file\<close>

text \<open>
  C5: when the flag \<^verbatim>\<open>hetzner.config\<close> is set and \<^verbatim>\<open>readConfig\<close> returns an
  error on its path, the action returns that error at once: the run consists of the
  logger, the read and the logged failure, the configuration is the one
  \<^verbatim>\<open>readConfig\<close> left (no validation has touched it), and \<^verbatim>\<open>action.Server\<close> is
  not called. When the flag is not set, \<^verbatim>\<open>readConfig\<close> is not called in the run.
\<close>

theorem config_read_error:
  "(IsSet c ''hetzner.config''
      \<and> readConfig out (String c ''hetzner.config'') cfg = (Some err, cfg')
    \<longrightarrow> Action out c cfg =
          \<lparr>returned = Some err, config = cfg',
           events = [SetupLogger, ReadConfig (String c ''hetzner.config''),
                     LogError [(''msg'', ''Failed to read config''), (''err'', Error err)]]\<rparr>
        \<and> serverCalls (events (Action out c cfg)) = 0)
   \<and> (\<not> IsSet c ''hetzner.config'' \<longrightarrow> readConfigCalls (events (Action out c cfg)) = 0)"
proof (intro conjI impI)
  assume h: "IsSet c ''hetzner.config''
      \<and> readConfig out (String c ''hetzner.config'') cfg = (Some err, cfg')"
  then show a: "Action out c cfg =
          \<lparr>returned = Some err, config = cfg',
           events = [SetupLogger, ReadConfig (String c ''hetzner.config''),
                     LogError [(''msg'', ''Failed to read config''), (''err'', Error err)]]\<rparr>"
    by (simp add: Action_def readConfigBlock_def)
  show "serverCalls (events (Action out c cfg)) = 0"
    by (simp add: a serverCalls_def)
next
  assume n: "\<not> IsSet c ''hetzner.config''"
  then have r: "readConfigBlock out c cfg = Inr (cfg, [SetupLogger])"
    by (simp add: readConfigBlock_def)
  show "readConfigCalls (events (Action out c cfg)) = 0"
    by (simp add: Action_def r outputFileBlock_def flagBlock_def anyCredentialsBlock_def
        serverCall_def readConfigCalls_def Let_def)
qed

theorem config_read_error_witness:
  "IsSet (contextOf [(''hetzner.config'', ''/missing.yml'')]) ''hetzner.config''
   \<and> readConfig sampleOutside
        (String (contextOf [(''hetzner.config'', ''/missing.yml'')]) ''hetzner.config'')
        sampleConfig = (Some (errors_New ''no such file''), sampleConfig)
   \<and> returned (Action sampleOutside (contextOf [(''hetzner.config'', ''/missing.yml'')])
        sampleConfig) = Some (errors_New ''no such file'')
   \<and> serverCalls (events (Action sampleOutside
        (contextOf [(''hetzner.config'', ''/missing.yml'')]) sampleConfig)) = 0
   \<and> \<not> IsSet (contextOf []) ''hetzner.config''
   \<and> readConfigCalls (events (Action sampleOutside (contextOf []) sampleConfig)) = 0"
proof -
  let ?c = "contextOf [(''hetzner.config'', ''/missing.yml'')]"
  have h1: "IsSet ?c ''hetzner.config''"
    by (simp add: contextOf_def)
  have h2: "readConfig sampleOutside (String ?c ''hetzner.config'') sampleConfig
      = (Some (errors_New ''no such file''), sampleConfig)"
    by (simp add: contextOf_def sampleOutside_def)
  have h3: "\<not> IsSet (contextOf []) ''hetzner.config''"
    by (simp add: contextOf_def)
  have a: "Action sampleOutside ?c sampleConfig =
      \<lparr>returned = Some (errors_New ''no such file''), config = sampleConfig,
       events = [SetupLogger, ReadConfig (String ?c ''hetzner.config''),
                 LogError [(''msg'', ''Failed to read config''),
                           (''err'', Error (errors_New ''no such file''))]]\<rparr>
      \<and> serverCalls (events (Action sampleOutside ?c sampleConfig)) = 0"
    using config_read_error [of ?c sampleOutside sampleConfig "errors_New ''no such file''" sampleConfig]
      h1 h2 by blast
  have b: "readConfigCalls (events (Action sampleOutside (contextOf []) sampleConfig)) = 0"
    using config_read_error [of "contextOf []" sampleOutside sampleConfig] h3 by blast
  from a have r: "returned (Action sampleOutside ?c sampleConfig) = Some (errors_New ''no such file'')"
    by simp
  show ?thesis
    using h1 h2 h3 a b r by blast
qed

subsection \<open>The credential of the flags\<close>

lemma flagHandling_eq:
  "flagHandling c cfg =
    (if IsSet c ''hetzner.username'' \<and> IsSet c ''hetzner.password''
     then cfg\<lparr>Target := (Target cfg)\<lparr>Credentials := Credentials (Target cfg) @
            [\<lparr>Project = ''default'', Username = String c ''hetzner.username'',
              Password = String c ''hetzner.password''\<rparr>]\<rparr>\<rparr>
     else cfg)"
  by (simp add: flagHandling_def flagBlock_def Let_def)

lemma flagHandling_Credentials:
  "Credentials (Target (flagHandling c cfg)) =
    (if IsSet c ''hetzner.username'' \<and> IsSet c ''hetzner.password''
     then Credentials (Target cfg) @
            [\<lparr>Project = ''default'', Username = String c ''hetzner.username'',
              Password = String c ''hetzner.password''\<rparr>]
     else Credentials (Target cfg))"
  by (simp add: flagHandling_eq)

lemma sentinel_errors_distinct:
  "ErrMissingAnyCredentials \<noteq> ErrMissingHetznerUsername"
  "ErrMissingAnyCredentials \<noteq> ErrMissingHetznerPassword"
  "ErrMissingOutputFile \<noteq> ErrMissingAnyCredentials"
  "ErrMissingHetznerUsername \<noteq> ErrMissingHetznerPassword"
  by (simp_all add: ErrMissingAnyCredentials_def ErrMissingHetznerUsername_def
      ErrMissingHetznerPassword_def ErrMissingOutputFile_def)

text \<open>
  C3: in a run that has passed the output-file check and in which both
  \<^verbatim>\<open>hetzner.username\<close> and \<^verbatim>\<open>hetzner.password\<close> are set, an empty username makes
  the action return \<^verbatim>\<open>ErrMissingHetznerUsername\<close> ("Missing required
  hetzner.username"); otherwise an empty password makes it return
  \<^verbatim>\<open>ErrMissingHetznerPassword\<close> ("Missing required hetzner.password"); otherwise the
  block leaves the configuration with the credential of project "default" and the two
  values appended, and the run goes on: the remaining check passes and the outcome is
  the call of \<^verbatim>\<open>action.Server\<close> on that configuration.
\<close>

theorem flag_credential_validation:
  assumes "afterConfigMerge out c cfg = Some (cfg1, es1)"
    and "File (Target cfg1) \<noteq> ''''"
    and "IsSet c ''hetzner.username''"
    and "IsSet c ''hetzner.password''"
  shows "(String c ''hetzner.username'' = ''''
          \<longrightarrow> returned (Action out c cfg) = Some ErrMissingHetznerUsername)
    \<and> (String c ''hetzner.username'' \<noteq> '''' \<and> String c ''hetzner.password'' = ''''
          \<longrightarrow> returned (Action out c cfg) = Some ErrMissingHetznerPassword)
    \<and> (String c ''hetzner.username'' \<noteq> '''' \<and> String c ''hetzner.password'' \<noteq> ''''
          \<longrightarrow> flagBlock c cfg1 es1 =
                Inr (cfg1\<lparr>Target := (Target cfg1)\<lparr>Credentials := Credentials (Target cfg1) @
                       [\<lparr>Project = ''default'', Username = String c ''hetzner.username'',
                         Password = String c ''hetzner.password''\<rparr>]\<rparr>\<rparr>, es1)
              \<and> Action out c cfg =
                serverCall out (setupLogger out cfg)
                  (cfg1\<lparr>Target := (Target cfg1)\<lparr>Credentials := Credentials (Target cfg1) @
                       [\<lparr>Project = ''default'', Username = String c ''hetzner.username'',
                         Password = String c ''hetzner.password''\<rparr>]\<rparr>\<rparr>) es1)
    \<and> Error ErrMissingHetznerUsername = ''Missing required hetzner.username''
    \<and> Error ErrMissingHetznerPassword = ''Missing required hetzner.password''"
proof -
  note a = Action_from_line_136 [OF assms(1,2)]
  note f = flagBlock_both_set [OF assms(3,4), of cfg1 es1]
  have u: "String c ''hetzner.username'' = ''''
      \<longrightarrow> returned (Action out c cfg) = Some ErrMissingHetznerUsername"
    by (simp add: a f Let_def)
  have p: "String c ''hetzner.username'' \<noteq> '''' \<and> String c ''hetzner.password'' = ''''
      \<longrightarrow> returned (Action out c cfg) = Some ErrMissingHetznerPassword"
    by (simp add: a f Let_def)
  have s: "String c ''hetzner.username'' \<noteq> '''' \<and> String c ''hetzner.password'' \<noteq> ''''
      \<longrightarrow> flagBlock c cfg1 es1 =
                Inr (cfg1\<lparr>Target := (Target cfg1)\<lparr>Credentials := Credentials (Target cfg1) @
                       [\<lparr>Project = ''default'', Username = String c ''hetzner.username'',
                         Password = String c ''hetzner.password''\<rparr>]\<rparr>\<rparr>, es1)
              \<and> Action out c cfg =
                serverCall out (setupLogger out cfg)
                  (cfg1\<lparr>Target := (Target cfg1)\<lparr>Credentials := Credentials (Target cfg1) @
                       [\<lparr>Project = ''default'', Username = String c ''hetzner.username'',
                         Password = String c ''hetzner.password''\<rparr>]\<rparr>\<rparr>) es1"
    by (simp add: a f Let_def anyCredentialsBlock_def)
  have m: "Error ErrMissingHetznerUsername = ''Missing required hetzner.username''
      \<and> Error ErrMissingHetznerPassword = ''Missing required hetzner.password''"
    by (simp add: ErrMissingHetznerUsername_def ErrMissingHetznerPassword_def)
  from u p s m show ?thesis by blast
qed

lemma sample_reaches_line_136:
  assumes "map_of kv ''hetzner.config'' = None"
  shows "afterConfigMerge sampleOutside (contextOf kv) cfg = Some (cfg, [SetupLogger])"
  using assms by (simp add: afterConfigMerge_def readConfigBlock_def contextOf_def)

lemma sampleConfig_File: "File (Target sampleConfig) \<noteq> ''''"
  by (simp add: sampleConfig_def)

theorem flag_credential_validation_witness:
  "returned (Action sampleOutside
      (contextOf [(''hetzner.username'', ''''), (''hetzner.password'', ''secret'')])
      sampleConfig) = Some ErrMissingHetznerUsername
   \<and> returned (Action sampleOutside
      (contextOf [(''hetzner.username'', ''robot''), (''hetzner.password'', '''')])
      sampleConfig) = Some ErrMissingHetznerPassword
   \<and> returned (Action sampleOutside
      (contextOf [(''hetzner.username'', ''robot''), (''hetzner.password'', ''secret'')])
      sampleConfig) = Some (errors_New ''server stopped'')"
proof -
  let ?c1 = "contextOf [(''hetzner.username'', ''''), (''hetzner.password'', ''secret'')]"
  let ?c2 = "contextOf [(''hetzner.username'', ''robot''), (''hetzner.password'', '''')]"
  let ?c3 = "contextOf [(''hetzner.username'', ''robot''), (''hetzner.password'', ''secret'')]"
  have r1: "afterConfigMerge sampleOutside ?c1 sampleConfig = Some (sampleConfig, [SetupLogger])"
    by (rule sample_reaches_line_136) simp
  have r2: "afterConfigMerge sampleOutside ?c2 sampleConfig = Some (sampleConfig, [SetupLogger])"
    by (rule sample_reaches_line_136) simp
  have r3: "afterConfigMerge sampleOutside ?c3 sampleConfig = Some (sampleConfig, [SetupLogger])"
    by (rule sample_reaches_line_136) simp
  have s1: "IsSet ?c1 ''hetzner.username''" "IsSet ?c1 ''hetzner.password''"
    "String ?c1 ''hetzner.username'' = ''''"
    by (simp_all add: contextOf_def)
  have s2: "IsSet ?c2 ''hetzner.username''" "IsSet ?c2 ''hetzner.password''"
    "String ?c2 ''hetzner.username'' \<noteq> ''''" "String ?c2 ''hetzner.password'' = ''''"
    by (simp_all add: contextOf_def)
  have s3: "IsSet ?c3 ''hetzner.username''" "IsSet ?c3 ''hetzner.password''"
    "String ?c3 ''hetzner.username'' \<noteq> ''''" "String ?c3 ''hetzner.password'' \<noteq> ''''"
    by (simp_all add: contextOf_def)
  have a1: "returned (Action sampleOutside ?c1 sampleConfig) = Some ErrMissingHetznerUsername"
    using flag_credential_validation [OF r1 sampleConfig_File s1(1,2)] s1(3) by blast
  have a2: "returned (Action sampleOutside ?c2 sampleConfig) = Some ErrMissingHetznerPassword"
    using flag_credential_validation [OF r2 sampleConfig_File s2(1,2)] s2(3,4) by blast
  have "Action sampleOutside ?c3 sampleConfig =
      serverCall sampleOutside (setupLogger sampleOutside sampleConfig)
        (sampleConfig\<lparr>Target := (Target sampleConfig)\<lparr>Credentials :=
           Credentials (Target sampleConfig) @
             [\<lparr>Project = ''default'', Username = String ?c3 ''hetzner.username'',
               Password = String ?c3 ''hetzner.password''\<rparr>]\<rparr>\<rparr>) [SetupLogger]"
    using flag_credential_validation [OF r3 sampleConfig_File s3(1,2)] s3(3,4) by blast
  then have a3: "returned (Action sampleOutside ?c3 sampleConfig) = Some (errors_New ''server stopped'')"
    by (simp add: serverCall_def sampleOutside_def)
  from a1 a2 a3 show ?thesis by blast
qed

text \<open>
  C8: in a run that arrives at the flags with both \<^verbatim>\<open>hetzner.username\<close> and
  \<^verbatim>\<open>hetzner.password\<close> set, the block appends the credential before it checks it:
  the configuration it leaves holds the old credentials followed by the new one.
  So when the username or the password is empty, the action returns
  \<^verbatim>\<open>ErrMissingHetznerUsername\<close> or \<^verbatim>\<open>ErrMissingHetznerPassword\<close> and the
  configuration it leaves is not the one it found: it ends with the invalid credential.
\<close>

theorem credential_appended_before_checks:
  assumes "afterConfigMerge out c cfg = Some (cfg1, es1)"
    and "File (Target cfg1) \<noteq> ''''"
    and "IsSet c ''hetzner.username''"
    and "IsSet c ''hetzner.password''"
  shows "Credentials (Target (flagHandling c cfg1)) =
           Credentials (Target cfg1) @
             [\<lparr>Project = ''default'', Username = String c ''hetzner.username'',
               Password = String c ''hetzner.password''\<rparr>]
    \<and> (String c ''hetzner.username'' = '''' \<or> String c ''hetzner.password'' = ''''
        \<longrightarrow> (returned (Action out c cfg) = Some ErrMissingHetznerUsername
              \<or> returned (Action out c cfg) = Some ErrMissingHetznerPassword)
            \<and> config (Action out c cfg) = flagHandling c cfg1
            \<and> config (Action out c cfg) \<noteq> cfg1
            \<and> serverCalls (events (Action out c cfg)) = 0)"
proof -
  note a = Action_from_line_136 [OF assms(1,2)]
  note f = flagBlock_both_set [OF assms(3,4), of cfg1 es1]
  have n: "serverCalls es1 = 0"
    using assms(1) by (simp add: afterConfigMerge_Some readConfigBlock_no_server)
  have app: "Credentials (Target (flagHandling c cfg1)) =
           Credentials (Target cfg1) @
             [\<lparr>Project = ''default'', Username = String c ''hetzner.username'',
               Password = String c ''hetzner.password''\<rparr>]"
    using assms(3,4) by (simp add: flagHandling_Credentials)
  then have ne: "flagHandling c cfg1 \<noteq> cfg1"
    by auto
  {
    assume e: "String c ''hetzner.username'' = '''' \<or> String c ''hetzner.password'' = ''''"
    have r: "returned (Action out c cfg) = Some ErrMissingHetznerUsername
        \<or> returned (Action out c cfg) = Some ErrMissingHetznerPassword"
      using e by (auto simp: a f Let_def)
    have k: "config (Action out c cfg) = flagHandling c cfg1"
      using e assms(3,4) by (auto simp: a f Let_def flagHandling_eq)
    have z: "serverCalls (events (Action out c cfg)) = 0"
      using e n by (auto simp: a f Let_def serverCalls_append) (simp_all add: serverCalls_def)
    from r k z ne have "(returned (Action out c cfg) = Some ErrMissingHetznerUsername
              \<or> returned (Action out c cfg) = Some ErrMissingHetznerPassword)
            \<and> config (Action out c cfg) = flagHandling c cfg1
            \<and> config (Action out c cfg) \<noteq> cfg1
            \<and> serverCalls (events (Action out c cfg)) = 0"
      by simp
  }
  with app show ?thesis by blast
qed

theorem credential_appended_before_checks_witness:
  "returned (Action sampleOutside
      (contextOf [(''hetzner.password'', ''''), (''hetzner.username'', ''robot'')])
      sampleConfig) = Some ErrMissingHetznerPassword
   \<and> Credentials (Target (config (Action sampleOutside
      (contextOf [(''hetzner.password'', ''''), (''hetzner.username'', ''robot'')])
      sampleConfig))) = [\<lparr>Project = ''default'', Username = ''robot'', Password = ''''\<rparr>]
   \<and> Credentials (Target sampleConfig) = []"
proof -
  let ?c = "contextOf [(''hetzner.password'', ''''), (''hetzner.username'', ''robot'')]"
  have r: "afterConfigMerge sampleOutside ?c sampleConfig = Some (sampleConfig, [SetupLogger])"
    by (rule sample_reaches_line_136) simp
  have s: "IsSet ?c ''hetzner.username''" "IsSet ?c ''hetzner.password''"
    "String ?c ''hetzner.username'' = ''robot''" "String ?c ''hetzner.password'' = ''''"
    by (simp_all add: contextOf_def)
  have e: "Credentials (Target sampleConfig) = []"
    by (simp add: sampleConfig_def)
  note t = credential_appended_before_checks [OF r sampleConfig_File s(1,2)]
  from t s(4) have k: "config (Action sampleOutside ?c sampleConfig) = flagHandling ?c sampleConfig"
    by blast
  from t have "Credentials (Target (flagHandling ?c sampleConfig)) =
      [\<lparr>Project = ''default'', Username = ''robot'', Password = ''''\<rparr>]"
    by (simp add: s(3,4) e)
  with k have c: "Credentials (Target (config (Action sampleOutside ?c sampleConfig))) =
      [\<lparr>Project = ''default'', Username = ''robot'', Password = ''''\<rparr>]"
    by simp
  from t s(4) have "returned (Action sampleOutside ?c sampleConfig) = Some ErrMissingHetznerUsername
      \<or> returned (Action sampleOutside ?c sampleConfig) = Some ErrMissingHetznerPassword"
    by blast
  moreover have "returned (Action sampleOutside ?c sampleConfig) \<noteq> Some ErrMissingHetznerUsername"
    using flagBlock_both_set [OF s(1,2), of sampleConfig "[SetupLogger]"]
      Action_from_line_136 [OF r sampleConfig_File] sentinel_errors_distinct(4)
    by (auto simp: Let_def s(3,4))
  ultimately have p: "returned (Action sampleOutside ?c sampleConfig) = Some ErrMissingHetznerPassword"
    by blast
  from p c e show ?thesis by blast
qed
subsection \<open>At least one credential, and the call of the server\<close>

text \<open>
  C2: when a run has merged the configuration file (or none was asked for), has passed
  the output-file check and has handled the flags, and \<^verbatim>\<open>cfg.Target.Credentials\<close> is
  then empty, the action returns \<^verbatim>\<open>ErrMissingAnyCredentials\<close>, whose message is
  "Missing any credentials", and \<^verbatim>\<open>action.Server\<close> is not called.
\<close>

theorem missing_any_credentials:
  assumes "afterConfigMerge out c cfg = Some (cfg1, es1)"
    and "File (Target cfg1) \<noteq> ''''"
    and "Credentials (Target (flagHandling c cfg1)) = []"
  shows "returned (Action out c cfg) = Some ErrMissingAnyCredentials
    \<and> Error ErrMissingAnyCredentials = ''Missing any credentials''
    \<and> serverCalls (events (Action out c cfg)) = 0"
proof -
  have nb: "\<not> (IsSet c ''hetzner.username'' \<and> IsSet c ''hetzner.password'')"
    using assms(3) by (auto simp: flagHandling_Credentials split: if_splits)
  have e: "Credentials (Target cfg1) = []"
    using assms(3) by (auto simp: flagHandling_Credentials split: if_splits)
  have n: "serverCalls es1 = 0"
    using assms(1) by (simp add: afterConfigMerge_Some readConfigBlock_no_server)
  have a: "Action out c cfg =
      \<lparr>returned = Some ErrMissingAnyCredentials, config = cfg1,
       events = es1 @ [LogError [(''msg'', Error ErrMissingAnyCredentials)]]\<rparr>"
    by (simp add: Action_from_line_136 [OF assms(1,2)] flagBlock_not_both [OF nb]
        anyCredentialsBlock_def e)
  have z: "serverCalls (events (Action out c cfg)) = 0"
    using n by (simp add: a serverCalls_append) (simp add: serverCalls_def)
  have m: "Error ErrMissingAnyCredentials = ''Missing any credentials''"
    by (simp add: ErrMissingAnyCredentials_def)
  from a z m show ?thesis by simp
qed

theorem missing_any_credentials_witness:
  "afterConfigMerge sampleOutside (contextOf [(''hetzner.password'', ''secret'')]) sampleConfig
     = Some (sampleConfig, [SetupLogger])
   \<and> File (Target sampleConfig) \<noteq> ''''
   \<and> Credentials (Target (flagHandling (contextOf [(''hetzner.password'', ''secret'')])
        sampleConfig)) = []
   \<and> returned (Action sampleOutside (contextOf [(''hetzner.password'', ''secret'')])
        sampleConfig) = Some ErrMissingAnyCredentials
   \<and> serverCalls (events (Action sampleOutside (contextOf [(''hetzner.password'', ''secret'')])
        sampleConfig)) = 0"
proof -
  let ?c = "contextOf [(''hetzner.password'', ''secret'')]"
  have r: "afterConfigMerge sampleOutside ?c sampleConfig = Some (sampleConfig, [SetupLogger])"
    by (rule sample_reaches_line_136) simp
  have e: "Credentials (Target (flagHandling ?c sampleConfig)) = []"
    by (simp add: flagHandling_Credentials contextOf_def sampleConfig_def)
  show ?thesis
    using missing_any_credentials [OF r sampleConfig_File e] r sampleConfig_File e by blast
qed

text \<open>
  C1, as stated, fails: with both flags set and an empty username, the configuration
  file not asked for and the output file not empty, the credentials are not empty
  after the flags have been handled (the credential has been appended), and yet the
  action returns \<^verbatim>\<open>ErrMissingHetznerUsername\<close>, which is not the result of
  \<^verbatim>\<open>action.Server\<close>, and does not call it.
\<close>

theorem server_called_once_counterexample:
  "afterConfigMerge sampleOutside
      (contextOf [(''hetzner.username'', ''''), (''hetzner.password'', ''secret'')]) sampleConfig
     = Some (sampleConfig, [SetupLogger])
   \<and> File (Target sampleConfig) \<noteq> ''''
   \<and> Credentials (Target (flagHandling
        (contextOf [(''hetzner.username'', ''''), (''hetzner.password'', ''secret'')])
        sampleConfig)) \<noteq> []
   \<and> returned (Action sampleOutside
        (contextOf [(''hetzner.username'', ''''), (''hetzner.password'', ''secret'')])
        sampleConfig) = Some ErrMissingHetznerUsername
   \<and> returned (Action sampleOutside
        (contextOf [(''hetzner.username'', ''''), (''hetzner.password'', ''secret'')])
        sampleConfig)
      \<noteq> action_Server sampleOutside
          (flagHandling (contextOf [(''hetzner.username'', ''''), (''hetzner.password'', ''secret'')])
             sampleConfig)
          (setupLogger sampleOutside sampleConfig)
   \<and> serverCalls (events (Action sampleOutside
        (contextOf [(''hetzner.username'', ''''), (''hetzner.password'', ''secret'')])
        sampleConfig)) = 0"
proof -
  let ?c = "contextOf [(''hetzner.username'', ''''), (''hetzner.password'', ''secret'')]"
  have r: "afterConfigMerge sampleOutside ?c sampleConfig = Some (sampleConfig, [SetupLogger])"
    by (rule sample_reaches_line_136) simp
  have s: "IsSet ?c ''hetzner.username''" "IsSet ?c ''hetzner.password''"
    "String ?c ''hetzner.username'' = ''''"
    by (simp_all add: contextOf_def)
  have ne: "Credentials (Target (flagHandling ?c sampleConfig)) \<noteq> []"
    using s(1,2) by (simp add: flagHandling_Credentials)
  have a: "Action sampleOutside ?c sampleConfig =
      \<lparr>returned = Some ErrMissingHetznerUsername, config = flagHandling ?c sampleConfig,
       events = [SetupLogger, LogError [(''msg'', Error ErrMissingHetznerUsername)]]\<rparr>"
    using s by (simp add: Action_from_line_136 [OF r sampleConfig_File]
        flagBlock_both_set [OF s(1,2)] Let_def flagHandling_eq)
  have d: "Some ErrMissingHetznerUsername
      \<noteq> action_Server sampleOutside (flagHandling ?c sampleConfig)
          (setupLogger sampleOutside sampleConfig)"
    by (simp add: sampleOutside_def ErrMissingHetznerUsername_def)
  have z: "serverCalls (events (Action sampleOutside ?c sampleConfig)) = 0"
    by (simp add: a serverCalls_def)
  from r sampleConfig_File ne a d z show ?thesis by simp
qed

text \<open>
  C1, amended: when the configuration file has been merged (or none was asked for),
  \<^verbatim>\<open>cfg.Target.File\<close> is not empty, the two flags, if both are set, both have
  non-empty values, and \<^verbatim>\<open>cfg.Target.Credentials\<close> is not empty after the flags have
  been handled, the action calls \<^verbatim>\<open>action.Server\<close> exactly once, as its last step, on
  that configuration and with the logger, and returns its result.
\<close>

theorem server_called_once:
  assumes "afterConfigMerge out c cfg = Some (cfg1, es1)"
    and "File (Target cfg1) \<noteq> ''''"
    and "IsSet c ''hetzner.username'' \<and> IsSet c ''hetzner.password''
         \<longrightarrow> String c ''hetzner.username'' \<noteq> '''' \<and> String c ''hetzner.password'' \<noteq> ''''"
    and "Credentials (Target (flagHandling c cfg1)) \<noteq> []"
  shows "returned (Action out c cfg)
           = action_Server out (flagHandling c cfg1) (setupLogger out cfg)
    \<and> events (Action out c cfg) = es1 @ [CallServer (flagHandling c cfg1)]
    \<and> serverCalls (events (Action out c cfg)) = 1"
proof -
  have n: "serverCalls es1 = 0"
    using assms(1) by (simp add: afterConfigMerge_Some readConfigBlock_no_server)
  have f: "flagBlock c cfg1 es1 = Inr (flagHandling c cfg1, es1)"
  proof (cases "IsSet c ''hetzner.username'' \<and> IsSet c ''hetzner.password''")
    case True
    with assms(3) show ?thesis
      by (simp add: flagBlock_both_set Let_def flagHandling_eq)
  next
    case False
    then show ?thesis
      by (simp add: flagBlock_not_both flagHandling_eq)
  qed
  have a: "Action out c cfg =
      serverCall out (setupLogger out cfg) (flagHandling c cfg1) es1"
    using assms(4)
    by (simp add: Action_from_line_136 [OF assms(1,2)] f anyCredentialsBlock_def)
  have z: "serverCalls (events (Action out c cfg)) = 1"
    using n by (simp add: a serverCall_def serverCalls_append) (simp add: serverCalls_def)
  from a z show ?thesis by (simp add: serverCall_def)
qed

theorem server_called_once_witness:
  "afterConfigMerge sampleOutside
      (contextOf [(''hetzner.config'', ''/etc/hetzner.yml'')]) sampleConfig
     = Some (sampleConfig\<lparr>Target := (Target sampleConfig)\<lparr>Credentials := [fileCredential]\<rparr>\<rparr>,
             [SetupLogger, ReadConfig ''/etc/hetzner.yml''])
   \<and> returned (Action sampleOutside
        (contextOf [(''hetzner.config'', ''/etc/hetzner.yml'')]) sampleConfig)
      = Some (errors_New ''server stopped'')
   \<and> events (Action sampleOutside
        (contextOf [(''hetzner.config'', ''/etc/hetzner.yml'')]) sampleConfig)
      = [SetupLogger, ReadConfig ''/etc/hetzner.yml'',
         CallServer (sampleConfig\<lparr>Target := (Target sampleConfig)\<lparr>Credentials :=
           [fileCredential]\<rparr>\<rparr>)]
   \<and> serverCalls (events (Action sampleOutside
        (contextOf [(''hetzner.config'', ''/etc/hetzner.yml'')]) sampleConfig)) = 1"
proof -
  let ?c = "contextOf [(''hetzner.config'', ''/etc/hetzner.yml'')]"
  let ?cfg1 = "sampleConfig\<lparr>Target := (Target sampleConfig)\<lparr>Credentials := [fileCredential]\<rparr>\<rparr>"
  have r: "afterConfigMerge sampleOutside ?c sampleConfig
      = Some (?cfg1, [SetupLogger, ReadConfig ''/etc/hetzner.yml''])"
    by (simp add: afterConfigMerge_def readConfigBlock_def contextOf_def sampleOutside_def
        sampleConfig_def)
  have fl: "File (Target ?cfg1) \<noteq> ''''"
    by (simp add: sampleConfig_def)
  have s: "IsSet ?c ''hetzner.username'' \<and> IsSet ?c ''hetzner.password''
      \<longrightarrow> String ?c ''hetzner.username'' \<noteq> '''' \<and> String ?c ''hetzner.password'' \<noteq> ''''"
    by (simp add: contextOf_def)
  have h: "flagHandling ?c ?cfg1 = ?cfg1"
    by (simp add: flagHandling_eq contextOf_def)
  have ne: "Credentials (Target (flagHandling ?c ?cfg1)) \<noteq> []"
    by (simp add: h)
  have v: "action_Server sampleOutside ?cfg1 (setupLogger sampleOutside sampleConfig)
      = Some (errors_New ''server stopped'')"
    by (simp add: sampleOutside_def)
  show ?thesis
    using server_called_once [OF r fl s ne] r v by (simp add: h serverCalls_def)
qed

text \<open>
  C9, as stated, fails: with only \<^verbatim>\<open>hetzner.username\<close> set, no configuration file and so
  no credential from one, but an empty output file, the action returns
  \<^verbatim>\<open>ErrMissingOutputFile\<close> and not \<^verbatim>\<open>ErrMissingAnyCredentials\<close>.
\<close>

theorem one_flag_no_credential_counterexample:
  "IsSet (contextOf [(''hetzner.username'', ''robot'')]) ''hetzner.username''
   \<and> \<not> IsSet (contextOf [(''hetzner.username'', ''robot'')]) ''hetzner.password''
   \<and> \<not> IsSet (contextOf [(''hetzner.username'', ''robot'')]) ''hetzner.config''
   \<and> Credentials (Target emptyFileConfig) = []
   \<and> Credentials (Target (config (Action sampleOutside
        (contextOf [(''hetzner.username'', ''robot'')]) emptyFileConfig))) = []
   \<and> returned (Action sampleOutside (contextOf [(''hetzner.username'', ''robot'')])
        emptyFileConfig) = Some ErrMissingOutputFile
   \<and> returned (Action sampleOutside (contextOf [(''hetzner.username'', ''robot'')])
        emptyFileConfig) \<noteq> Some ErrMissingAnyCredentials"
proof -
  let ?c = "contextOf [(''hetzner.username'', ''robot'')]"
  have s: "IsSet ?c ''hetzner.username''" "\<not> IsSet ?c ''hetzner.password''"
    "\<not> IsSet ?c ''hetzner.config''"
    by (simp_all add: contextOf_def)
  have e: "Credentials (Target emptyFileConfig) = []"
    by (simp add: emptyFileConfig_def)
  have a: "Action sampleOutside ?c emptyFileConfig =
      \<lparr>returned = Some ErrMissingOutputFile, config = emptyFileConfig,
       events = [SetupLogger, LogError [(''msg'', Error ErrMissingOutputFile)]]\<rparr>"
    using s(3) by (simp add: Action_def readConfigBlock_def outputFileBlock_def emptyFileConfig_def)
  from s e a sentinel_errors_distinct(3) show ?thesis by simp
qed

text \<open>
  C9, amended: when exactly one of \<^verbatim>\<open>hetzner.username\<close> and \<^verbatim>\<open>hetzner.password\<close> is
  set, whatever its value, the flags leave the configuration as it is: no credential
  is built from them. If moreover the run arrives at the flags (the configuration file
  merged or not asked for, the output file not empty) with no credentials, the action
  returns \<^verbatim>\<open>ErrMissingAnyCredentials\<close>, not \<^verbatim>\<open>ErrMissingHetznerUsername\<close> or
  \<^verbatim>\<open>ErrMissingHetznerPassword\<close>, and does not call \<^verbatim>\<open>action.Server\<close>.
\<close>

theorem one_flag_no_credential:
  assumes "IsSet c ''hetzner.username'' \<noteq> IsSet c ''hetzner.password''"
  shows "flagHandling c cfg1 = cfg1
    \<and> (afterConfigMerge out c cfg = Some (cfg1, es1) \<and> File (Target cfg1) \<noteq> ''''
          \<and> Credentials (Target cfg1) = []
        \<longrightarrow> returned (Action out c cfg) = Some ErrMissingAnyCredentials
            \<and> returned (Action out c cfg) \<noteq> Some ErrMissingHetznerUsername
            \<and> returned (Action out c cfg) \<noteq> Some ErrMissingHetznerPassword
            \<and> config (Action out c cfg) = cfg1
            \<and> serverCalls (events (Action out c cfg)) = 0)"
proof -
  have nb: "\<not> (IsSet c ''hetzner.username'' \<and> IsSet c ''hetzner.password'')"
    using assms by auto
  then have h: "flagHandling c cfg1 = cfg1"
    by (simp add: flagHandling_eq)
  {
    assume r: "afterConfigMerge out c cfg = Some (cfg1, es1)"
      and fl: "File (Target cfg1) \<noteq> ''''"
      and e: "Credentials (Target cfg1) = []"
    have n: "serverCalls es1 = 0"
      using r by (simp add: afterConfigMerge_Some readConfigBlock_no_server)
    have a: "Action out c cfg =
        \<lparr>returned = Some ErrMissingAnyCredentials, config = cfg1,
         events = es1 @ [LogError [(''msg'', Error ErrMissingAnyCredentials)]]\<rparr>"
      by (simp add: Action_from_line_136 [OF r fl] flagBlock_not_both [OF nb]
          anyCredentialsBlock_def e)
    have z: "serverCalls (events (Action out c cfg)) = 0"
      using n by (simp add: a serverCalls_append) (simp add: serverCalls_def)
    from a z sentinel_errors_distinct(1,2)
    have "returned (Action out c cfg) = Some ErrMissingAnyCredentials
            \<and> returned (Action out c cfg) \<noteq> Some ErrMissingHetznerUsername
            \<and> returned (Action out c cfg) \<noteq> Some ErrMissingHetznerPassword
            \<and> config (Action out c cfg) = cfg1
            \<and> serverCalls (events (Action out c cfg)) = 0"
      by simp
  }
  with h show ?thesis by blast
qed

theorem one_flag_no_credential_witness:
  "IsSet (contextOf [(''hetzner.username'', ''robot'')]) ''hetzner.username''
     \<noteq> IsSet (contextOf [(''hetzner.username'', ''robot'')]) ''hetzner.password''
   \<and> afterConfigMerge sampleOutside (contextOf [(''hetzner.username'', ''robot'')]) sampleConfig
     = Some (sampleConfig, [SetupLogger])
   \<and> File (Target sampleConfig) \<noteq> ''''
   \<and> Credentials (Target sampleConfig) = []
   \<and> flagHandling (contextOf [(''hetzner.username'', ''robot'')]) sampleConfig = sampleConfig
   \<and> returned (Action sampleOutside (contextOf [(''hetzner.username'', ''robot'')])
        sampleConfig) = Some ErrMissingAnyCredentials"
proof -
  let ?c = "contextOf [(''hetzner.username'', ''robot'')]"
  have x: "IsSet ?c ''hetzner.username'' \<noteq> IsSet ?c ''hetzner.password''"
    by (simp add: contextOf_def)
  have r: "afterConfigMerge sampleOutside ?c sampleConfig = Some (sampleConfig, [SetupLogger])"
    by (rule sample_reaches_line_136) simp
  have e: "Credentials (Target sampleConfig) = []"
    by (simp add: sampleConfig_def)
  show ?thesis
    using one_flag_no_credential [OF x, of sampleConfig sampleOutside sampleConfig "[SetupLogger]"]
      x r sampleConfig_File e by blast
qed
section \<open>Properties of the flag table and of main\<close>

text \<open>
  C6: the \<^verbatim>\<open>server\<close> command has the seven options \<^verbatim>\<open>web.address\<close>,
  \<^verbatim>\<open>web.path\<close>, \<^verbatim>\<open>output.file\<close>, \<^verbatim>\<open>output.refresh\<close>, \<^verbatim>\<open>hetzner.username\<close>,
  \<^verbatim>\<open>hetzner.password\<close> and \<^verbatim>\<open>hetzner.config\<close>. Each is a command-line flag of that
  name bound to one environment variable, whose name starts with
  \<^verbatim>\<open>PROMETHEUS_HETZNER_\<close>. The values they hold when neither is given are
  "0.0.0.0:9000", "/metrics", "/etc/prometheus/hetzner.json", 30, and the empty
  string for the last three.
\<close>

theorem server_flag_defaults:
  "map Name serverFlags =
     [''web.address'', ''web.path'', ''output.file'', ''output.refresh'',
      ''hetzner.username'', ''hetzner.password'', ''hetzner.config'']
   \<and> map EnvVars serverFlags =
     [[''PROMETHEUS_HETZNER_WEB_ADDRESS''], [''PROMETHEUS_HETZNER_WEB_PATH''],
      [''PROMETHEUS_HETZNER_OUTPUT_FILE''], [''PROMETHEUS_HETZNER_OUTPUT_REFRESH''],
      [''PROMETHEUS_HETZNER_USERNAME''], [''PROMETHEUS_HETZNER_PASSWORD''],
      [''PROMETHEUS_HETZNER_CONFIG'']]
   \<and> map hetznerEnvVars serverFlags = map EnvVars serverFlags
   \<and> map_option Value (lookupFlag serverFlags ''web.address'')
       = Some (StringValue ''0.0.0.0:9000'')
   \<and> map_option Value (lookupFlag serverFlags ''web.path'') = Some (StringValue ''/metrics'')
   \<and> map_option Value (lookupFlag serverFlags ''output.file'')
       = Some (StringValue ''/etc/prometheus/hetzner.json'')
   \<and> map_option Value (lookupFlag serverFlags ''output.refresh'') = Some (IntValue 30)
   \<and> map_option Value (lookupFlag serverFlags ''hetzner.username'') = Some (StringValue '''')
   \<and> map_option Value (lookupFlag serverFlags ''hetzner.password'') = Some (StringValue '''')
   \<and> map_option Value (lookupFlag serverFlags ''hetzner.config'') = Some (StringValue '''')"
proof -
  have n: "map Name serverFlags =
     [''web.address'', ''web.path'', ''output.file'', ''output.refresh'',
      ''hetzner.username'', ''hetzner.password'', ''hetzner.config'']"
    by (simp add: serverFlags_def)
  have e: "map EnvVars serverFlags =
     [[''PROMETHEUS_HETZNER_WEB_ADDRESS''], [''PROMETHEUS_HETZNER_WEB_PATH''],
      [''PROMETHEUS_HETZNER_OUTPUT_FILE''], [''PROMETHEUS_HETZNER_OUTPUT_REFRESH''],
      [''PROMETHEUS_HETZNER_USERNAME''], [''PROMETHEUS_HETZNER_PASSWORD''],
      [''PROMETHEUS_HETZNER_CONFIG'']]"
    by (simp add: serverFlags_def)
  have h: "map hetznerEnvVars serverFlags = map EnvVars serverFlags"
    by (simp add: serverFlags_def hetznerEnvVars_def)
  have v1: "map_option Value (lookupFlag serverFlags ''web.address'')
       = Some (StringValue ''0.0.0.0:9000'')"
    by (simp add: serverFlags_def)
  have v2: "map_option Value (lookupFlag serverFlags ''web.path'') = Some (StringValue ''/metrics'')"
    by (simp add: serverFlags_def)
  have v3: "map_option Value (lookupFlag serverFlags ''output.file'')
       = Some (StringValue ''/etc/prometheus/hetzner.json'')"
    by (simp add: serverFlags_def)
  have v4: "map_option Value (lookupFlag serverFlags ''output.refresh'') = Some (IntValue 30)"
    by (simp add: serverFlags_def)
  have v5: "map_option Value (lookupFlag serverFlags ''hetzner.username'') = Some (StringValue '''')"
    by (simp add: serverFlags_def)
  have v6: "map_option Value (lookupFlag serverFlags ''hetzner.password'') = Some (StringValue '''')"
    by (simp add: serverFlags_def)
  have v7: "map_option Value (lookupFlag serverFlags ''hetzner.config'') = Some (StringValue '''')"
    by (simp add: serverFlags_def)
  from n e h v1 v2 v3 v4 v5 v6 v7 show ?thesis
    by blast
qed

text \<open>
  C10: when \<^verbatim>\<open>app.Run\<close> returns an error, whichever it is, the process exits with
  status 1; when it returns \<^verbatim>\<open>nil\<close>, \<^verbatim>\<open>main\<close> returns without calling
  \<^verbatim>\<open>os.Exit\<close>.
\<close>

theorem main_exit_status:
  "(app_Run os_Args \<noteq> None \<longrightarrow> main app_Run os_Args = os_Exit 1)
   \<and> (app_Run os_Args = None \<longrightarrow> main app_Run os_Args = Returns)"
  by (auto simp: main_def)

theorem main_exit_status_witness:
  "sampleRun [''prometheus-hetzner-sd'', ''server''] = Some ErrMissingAnyCredentials
   \<and> main sampleRun [''prometheus-hetzner-sd'', ''server''] = os_Exit 1
   \<and> sampleRun [''prometheus-hetzner-sd'', ''--version''] = None
   \<and> main sampleRun [''prometheus-hetzner-sd'', ''--version''] = Returns"
proof -
  have r: "afterConfigMerge sampleOutside (contextOf []) sampleConfig
      = Some (sampleConfig, [SetupLogger])"
    by (rule sample_reaches_line_136) simp
  have nb: "\<not> (IsSet (contextOf []) ''hetzner.username''
      \<and> IsSet (contextOf []) ''hetzner.password'')"
    by (simp add: contextOf_def)
  have e: "Credentials (Target sampleConfig) = []"
    by (simp add: sampleConfig_def)
  have "Action sampleOutside (contextOf []) sampleConfig =
      \<lparr>returned = Some ErrMissingAnyCredentials, config = sampleConfig,
       events = [SetupLogger, LogError [(''msg'', Error ErrMissingAnyCredentials)]]\<rparr>"
    by (simp add: Action_from_line_136 [OF r sampleConfig_File] flagBlock_not_both [OF nb]
        anyCredentialsBlock_def e)
  then have a: "sampleRun [''prometheus-hetzner-sd'', ''server''] = Some ErrMissingAnyCredentials"
    by (simp add: sampleRun_def)
  have b: "sampleRun [''prometheus-hetzner-sd'', ''--version''] = None"
    by (simp add: sampleRun_def)
  from a have a': "sampleRun [''prometheus-hetzner-sd'', ''server''] \<noteq> None"
    by simp
  show ?thesis
    using main_exit_status [of sampleRun "[''prometheus-hetzner-sd'', ''server'']"]
      main_exit_status [of sampleRun "[''prometheus-hetzner-sd'', ''--version'']"]
      a a' b by blast
qed

end
